theory Spec2Isabelle
  imports Complex_Main "HOL-Library.AList"
begin

section \<open>Values of the host language\<close>

text \<open>
  The program is TypeScript. Its strings are sequences of UTF-16 code units, and the
  parser compares, measures and classifies them unit by unit (\<open>p.length <= 8\<close>, the
  class of the units U+4E00 to U+9FA5), so a string is modelled as the list of its code units.
  \<open>str\<close> writes an ASCII literal; other literals are given by their code units, named in the
  comment beside them.
\<close>

type_synonym jstring = "nat list"

definition str :: "string \<Rightarrow> jstring" where
  "str s = map of_char s"

text \<open>
  A number is a double in the source. The model keeps \<open>NaN\<close> and the two infinities
  apart and takes every other number as the exact rational it denotes: rounding a
  decimal literal to the nearest double is not modelled. \<open>Fin 0\<close> stands for both zeros,
  which the program never tells apart.
\<close>

datatype jsnum = NaN | PosInf | NegInf | Fin rat

text \<open>
  The loosely typed values that reach record normalization: what \<open>JSON.parse\<close> can
  return, plus \<open>undefined\<close> for a property that is not there. In \<open>JObj kvs\<close> the own
  property \<open>k\<close> of the object is \<open>map_of kvs k\<close>.
\<close>

datatype jsval =
    JUndefined
  | JNull
  | JBool bool
  | JNum jsnum
  | JStr jstring
  | JArr "jsval list"
  | JObj "(jstring \<times> jsval) list"

datatype error = TypeError | SyntaxError

text \<open>
  What the program takes from its host and does not define itself: \<open>JSON.parse\<close>
  (which throws on text that is not JSON), the conversion of a number to a string used by
  \<open>String(n)\<close> and by template literals, and the current date
  \<open>new Date().toISOString().slice(0, 10)\<close>. Every theorem below holds for every
  such host.
\<close>

record platform =
  JSON_parse :: "jstring \<Rightarrow> error + jsval"
  Number_toString :: "jsnum \<Rightarrow> jstring"
  today :: jstring

section \<open>The scoring engine (src/lib/scoring.ts)\<close>

text \<open>
  \<open>calculateScore\<close> takes a partial record and reads two of its fields,
  \<open>sector_pattern\<close> and \<open>turnover\<close>; they are the two arguments of the model.
  The type of \<open>sector_pattern\<close> has the two labels and \<open>null\<close>; \<open>null\<close> and a
  missing field are \<open>None\<close>. A missing or \<open>null\<close> turnover is \<open>None\<close>.
\<close>

datatype pattern =
    WaterUp           \<comment> \<open>the label U+6C34 U+4E0B U+62C9 U+6C34 U+4E0A, "rose after an intraday dip"\<close>
  | TriangleNarrow    \<comment> \<open>the label U+6CE2 U+52A8 U+4E09 U+89D2 U+6536 U+7A84, "narrowing oscillation triangle"\<close>

definition label_WaterUp :: jstring where
  \<comment> \<open>the first label\<close>
  "label_WaterUp = [0x6C34, 0x4E0B, 0x62C9, 0x6C34, 0x4E0A]"

definition label_TriangleNarrow :: jstring where
  \<comment> \<open>the second label\<close>
  "label_TriangleNarrow = [0x6CE2, 0x52A8, 0x4E09, 0x89D2, 0x6536, 0x7A84]"

definition txt_sector_intraday :: jstring where
  \<comment> \<open>U+677F U+5757 U+5206 U+65F6, "sector intraday"\<close>
  "txt_sector_intraday = [0x677F, 0x5757, 0x5206, 0x65F6]"

definition txt_turnover :: jstring where
  \<comment> \<open>U+6362 U+624B U+7387, "turnover rate"\<close>
  "txt_turnover = [0x6362, 0x624B, 0x7387]"

definition txt_info_missing :: jstring where
  \<comment> \<open>U+4FE1 U+606F U+7F3A U+5931, "information missing"\<close>
  "txt_info_missing = [0x4FE1, 0x606F, 0x7F3A, 0x5931]"

definition txt_insufficient :: jstring where
  \<comment> \<open>U+4FE1 U+606F U+4E0D U+8DB3, a slash, U+9700 U+8865 U+5B57 U+6BB5: "insufficient information"\<close>
  "txt_insufficient =
     [0x4FE1, 0x606F, 0x4E0D, 0x8DB3, 0x2F, 0x9700, 0x8865, 0x5B57, 0x6BB5]"

text \<open>The comparison \<open>x >= c\<close> of a number with a constant.\<close>

fun num_ge :: "jsnum \<Rightarrow> rat \<Rightarrow> bool" where
  "num_ge NaN c = False"
| "num_ge PosInf c = True"
| "num_ge NegInf c = False"
| "num_ge (Fin r) c = (c \<le> r)"

text \<open>
  Lines 10 to 19: the contribution of \<open>sector_pattern\<close>, as the pair of the points added
  and the reasons pushed.
\<close>

definition patternRule :: "pattern option \<Rightarrow> int \<times> jstring list" where
  "patternRule sp =
     (case sp of
        Some WaterUp \<Rightarrow>
          (30, [txt_sector_intraday @ [0xFF1A] @ label_WaterUp @ str '' +30''])
      | Some TriangleNarrow \<Rightarrow>
          (20, [txt_sector_intraday @ [0xFF1A] @ label_TriangleNarrow @ str '' +20''])
      | None \<Rightarrow> (0, [txt_sector_intraday @ txt_info_missing]))"

text \<open>Lines 21 to 35: the contribution of \<open>turnover\<close>, an if/else-if chain.\<close>

definition turnoverRule :: "platform \<Rightarrow> jsnum option \<Rightarrow> int \<times> jstring list" where
  "turnoverRule P turnover =
     (case turnover of
        Some t \<Rightarrow>
          if num_ge t 8 then
            (30, [txt_turnover @ Number_toString P t @ str ''% >= 8% +30''])
          else if num_ge t 5 then
            (20, [txt_turnover @ Number_toString P t @ str ''% >= 5% +20''])
          else if num_ge t 3 then
            (10, [txt_turnover @ Number_toString P t @ str ''% >= 3% +10''])
          else (0, [])
      | None \<Rightarrow> (0, [txt_turnover @ txt_info_missing]))"

text \<open>The value of the variable \<open>score\<close> when line 37 is reached, before the clamp.\<close>

definition ruleTotal :: "platform \<Rightarrow> pattern option \<Rightarrow> jsnum option \<Rightarrow> int" where
  "ruleTotal P sp turnover = 0 + fst (patternRule sp) + fst (turnoverRule P turnover)"

definition calculateScore ::
  "platform \<Rightarrow> pattern option \<Rightarrow> jsnum option \<Rightarrow> int \<times> jstring list" where
  "calculateScore P sp turnover =
     (let reasons = [] @ snd (patternRule sp) @ snd (turnoverRule P turnover);
          score = max 0 (min 100 (ruleTotal P sp turnover));
          reasons = (if length reasons = 0 then reasons @ [txt_insufficient] else reasons)
      in (score, reasons))"

text \<open>The turnover bonus alone: what the turnover rule adds to the score.\<close>

definition turnoverBonus :: "platform \<Rightarrow> jsnum option \<Rightarrow> int" where
  "turnoverBonus P turnover = fst (turnoverRule P turnover)"

section \<open>String operations of the host, as the parser uses them\<close>

text \<open>
  White space is what \<open>trim\<close>, the regular-expression class \<open>\s\<close> and the
  leading-blank skipping of \<open>parseFloat\<close> all use: the ECMAScript WhiteSpace and
  LineTerminator code units.
\<close>

definition isWhiteSpace :: "nat \<Rightarrow> bool" where
  "isWhiteSpace c \<longleftrightarrow>
     c = 0x09 \<or> c = 0x0A \<or> c = 0x0B \<or> c = 0x0C \<or> c = 0x0D \<or> c = 0x20 \<or> c = 0xA0
     \<or> c = 0x1680 \<or> (0x2000 \<le> c \<and> c \<le> 0x200A) \<or> c = 0x2028 \<or> c = 0x2029
     \<or> c = 0x202F \<or> c = 0x205F \<or> c = 0x3000 \<or> c = 0xFEFF"

text \<open>The units that \<open>.\<close> of a regular expression does not match.\<close>

definition isLineTerminator :: "nat \<Rightarrow> bool" where
  "isLineTerminator c \<longleftrightarrow> c = 0x0A \<or> c = 0x0D \<or> c = 0x2028 \<or> c = 0x2029"

text \<open>The class \<open>\d\<close>: the ten ASCII digits.\<close>

definition isDigit :: "nat \<Rightarrow> bool" where
  "isDigit c \<longleftrightarrow> 0x30 \<le> c \<and> c \<le> 0x39"

text \<open>The class of \<open>%\<close> and U+FF05.\<close>

definition isPercent :: "nat \<Rightarrow> bool" where
  "isPercent c \<longleftrightarrow> c = 0x25 \<or> c = 0xFF05"

text \<open>The class of the units U+4E00 to U+9FA5.\<close>

definition isCJK :: "nat \<Rightarrow> bool" where
  "isCJK c \<longleftrightarrow> 0x4E00 \<le> c \<and> c \<le> 0x9FA5"

text \<open>The class \<open>[A-Za-z]\<close>.\<close>

definition isAsciiLetter :: "nat \<Rightarrow> bool" where
  "isAsciiLetter c \<longleftrightarrow> (0x41 \<le> c \<and> c \<le> 0x5A) \<or> (0x61 \<le> c \<and> c \<le> 0x7A)"

definition trim :: "jstring \<Rightarrow> jstring" where
  "trim s = rev (dropWhile isWhiteSpace (rev (dropWhile isWhiteSpace s)))"

text \<open>
  \<open>toLowerCase\<close> on the letters A to Z. The lower-cased text is only searched for the
  header keywords and looked up in the header dictionary; the case mapping of a unit
  outside ASCII yields no unit of any keyword or dictionary key (U+212A gives \<open>k\<close> and
  U+0130 gives \<open>i\<close> followed by U+0307, which none of them contains), so leaving
  those units alone changes no comparison the parser makes.
\<close>

definition toLowerCase :: "jstring \<Rightarrow> jstring" where
  "toLowerCase s = map (\<lambda>c. if 0x41 \<le> c \<and> c \<le> 0x5A then c + 0x20 else c) s"

definition startsWith :: "jstring \<Rightarrow> jstring \<Rightarrow> bool" where
  "startsWith s p \<longleftrightarrow> take (length p) s = p"

fun includes_str :: "jstring \<Rightarrow> jstring \<Rightarrow> bool" where
  "includes_str [] p = (p = [])"
| "includes_str (c # cs) p = (startsWith (c # cs) p \<or> includes_str cs p)"

text \<open>
  \<open>s.split(sep)\<close> where every match of the separator is one code unit: a one-unit
  string, or a regular expression that is a character class. The empty string splits
  into one empty piece.
\<close>

fun split_at :: "(nat \<Rightarrow> bool) \<Rightarrow> jstring \<Rightarrow> jstring list" where
  "split_at sep [] = [[]]"
| "split_at sep (c # cs) =
     (if sep c then [] # split_at sep cs
      else (case split_at sep cs of
              [] \<Rightarrow> [[c]]
            | piece # pieces \<Rightarrow> (c # piece) # pieces))"

text \<open>\<open>s.padStart(n, c)\<close> with a one-unit filler.\<close>

definition padStart :: "nat \<Rightarrow> nat \<Rightarrow> jstring \<Rightarrow> jstring" where
  "padStart n c s = replicate (n - length s) c @ s"

text \<open>
  \<open>parseFloat\<close>: skip leading white space, then read the longest prefix that is a
  decimal literal: an optional sign, then \<open>Infinity\<close> or digits with an optional
  fraction and an optional exponent. No such prefix gives \<open>NaN\<close>.
\<close>

definition digitsValue :: "jstring \<Rightarrow> nat" where
  "digitsValue ds = foldl (\<lambda>a d. 10 * a + (d - 0x30)) 0 ds"

definition readSign :: "jstring \<Rightarrow> bool \<times> jstring" where
  "readSign s =
     (case s of
        [] \<Rightarrow> (False, s)
      | c # r \<Rightarrow> if c = 0x2D then (True, r) else if c = 0x2B then (False, r) else (False, s))"

definition readExponent :: "jstring \<Rightarrow> int" where
  "readExponent s =
     (case s of
        [] \<Rightarrow> 0
      | e # r \<Rightarrow>
          if e = 0x65 \<or> e = 0x45 then
            (let (neg, r1) = readSign r; ds = takeWhile isDigit r1
             in if ds = [] then 0
                else if neg then - int (digitsValue ds) else int (digitsValue ds))
          else 0)"

definition scale10 :: "rat \<Rightarrow> int \<Rightarrow> rat" where
  "scale10 m e = (if 0 \<le> e then m * 10 ^ nat e else m / 10 ^ nat (- e))"

definition parseFloat :: "jstring \<Rightarrow> jsnum" where
  "parseFloat s =
     (let (neg, u) = readSign (dropWhile isWhiteSpace s)
      in if startsWith u (str ''Infinity'') then (if neg then NegInf else PosInf)
         else
           (let ip = takeWhile isDigit u;
                r1 = dropWhile isDigit u;
                hasDot = (case r1 of [] \<Rightarrow> False | c # _ \<Rightarrow> c = 0x2E);
                fp = (if hasDot then takeWhile isDigit (tl r1) else []);
                r2 = (if hasDot then dropWhile isDigit (tl r1) else r1)
            in if ip = [] \<and> fp = [] then NaN
               else
                 (let m = of_nat (digitsValue (ip @ fp)) / 10 ^ length fp;
                      v = scale10 m (readExponent r2)
                  in Fin (if neg then - v else v))))"

section \<open>Conversions of loosely typed values\<close>

text \<open>\<open>ToBoolean\<close>: what \<open>!v\<close>, \<open>v || w\<close> and \<open>if (v)\<close> test.\<close>

fun truthy :: "jsval \<Rightarrow> bool" where
  "truthy JUndefined = False"
| "truthy JNull = False"
| "truthy (JBool b) = b"
| "truthy (JNum NaN) = False"
| "truthy (JNum PosInf) = True"
| "truthy (JNum NegInf) = True"
| "truthy (JNum (Fin r)) = (r \<noteq> 0)"
| "truthy (JStr s) = (s \<noteq> [])"
| "truthy (JArr xs) = True"
| "truthy (JObj kvs) = True"

text \<open>\<open>v || w\<close>.\<close>

definition orElse :: "jsval \<Rightarrow> jsval \<Rightarrow> jsval" where
  "orElse v w = (if truthy v then v else w)"

text \<open>Sequencing of computations that may throw.\<close>

definition andThen :: "error + 'a \<Rightarrow> ('a \<Rightarrow> error + 'b) \<Rightarrow> error + 'b" where
  "andThen m f = (case m of Inl e \<Rightarrow> Inl e | Inr x \<Rightarrow> f x)"

text \<open>
  \<open>String(v)\<close>. An array is joined with commas, \<open>null\<close> and \<open>undefined\<close> elements
  giving the empty string. A plain object gives \<open>[object Object]\<close> through
  \<open>Object.prototype.toString\<close>, unless it has an own property \<open>toString\<close>: a value
  read from JSON is never callable, the conversion then falls to \<open>valueOf\<close>, which gives
  no primitive either, and a TypeError is thrown.
\<close>

fun ToString :: "platform \<Rightarrow> jsval \<Rightarrow> error + jstring"
and join_elements :: "platform \<Rightarrow> jsval list \<Rightarrow> error + jstring" where
  "ToString P JUndefined = Inr (str ''undefined'')"
| "ToString P JNull = Inr (str ''null'')"
| "ToString P (JBool b) = Inr (if b then str ''true'' else str ''false'')"
| "ToString P (JNum n) = Inr (Number_toString P n)"
| "ToString P (JStr s) = Inr s"
| "ToString P (JArr xs) = join_elements P xs"
| "ToString P (JObj kvs) =
     (case map_of kvs (str ''toString'') of
        Some f \<Rightarrow> Inl TypeError
      | None \<Rightarrow> Inr (str ''[object Object]''))"
| "join_elements P [] = Inr []"
| "join_elements P (x # xs) =
     andThen (case x of JUndefined \<Rightarrow> Inr [] | JNull \<Rightarrow> Inr [] | _ \<Rightarrow> ToString P x)
       (\<lambda>s. if xs = [] then Inr s
            else andThen (join_elements P xs) (\<lambda>r. Inr (s @ [0x2C] @ r)))"

text \<open>
  \<open>raw.k\<close> for one of the field names the normalizer reads. Reading a property of
  \<open>null\<close> or \<open>undefined\<close> throws; a number, boolean, string or array has none of these
  names (own or inherited), so the result is \<open>undefined\<close>.
\<close>

definition getProp :: "jsval \<Rightarrow> jstring \<Rightarrow> error + jsval" where
  "getProp raw k =
     (case raw of
        JUndefined \<Rightarrow> Inl TypeError
      | JNull \<Rightarrow> Inl TypeError
      | JObj kvs \<Rightarrow> Inr (case map_of kvs k of None \<Rightarrow> JUndefined | Some v \<Rightarrow> v)
      | _ \<Rightarrow> Inr JUndefined)"

text \<open>
  \<open>v.trim()\<close>: on a string the method; on any other value that is not \<open>null\<close> or
  \<open>undefined\<close> the property \<open>trim\<close> is not a function and the call throws.
\<close>

definition callTrim :: "jsval \<Rightarrow> error + jstring" where
  "callTrim v = (case v of JStr s \<Rightarrow> Inr (trim s) | _ \<Rightarrow> Inl TypeError)"

section \<open>Record normalization (src/unnamed/part_013, lines 159 to 220)\<close>

text \<open>
  \<open>SignalRecord\<close> of src/lib/types.ts. The declared type of \<open>date\<close> is a string
  and that of \<open>sector\<close> a list of strings, but normalization copies a raw date and a raw
  list as they are, so both fields hold loosely typed values.
\<close>

record SignalRecord =
  date :: jsval
  code :: jstring
  name :: jstring
  sector :: "jsval list"
  sector_pattern :: "pattern option"
  turnover :: "jsnum option"
  chg :: "jsnum option"
  amount :: "jsnum option"
  debt_ratio :: "jsnum option"
  score :: int
  reason :: "jstring list"

definition normalizeCode :: "platform \<Rightarrow> jsval \<Rightarrow> error + jstring" where
  "normalizeCode P c =
     (if \<not> truthy c then Inr []
      else andThen (ToString P c) (\<lambda>s. Inr (padStart 6 0x30 (filter isDigit s))))"

definition parseSectorPattern :: "platform \<Rightarrow> jsval \<Rightarrow> error + pattern option" where
  "parseSectorPattern P val =
     andThen (ToString P (orElse val (JStr []))) (\<lambda>s0.
       let s = trim s0
       in Inr (if s = label_WaterUp then Some WaterUp
               else if s = label_TriangleNarrow then Some TriangleNarrow
               else if s = str ''true'' \<or> s = [0x662F] \<or> s = str ''1'' \<or> s = str ''yes''
                 then Some WaterUp
               else None))"

text \<open>\<open>n || null\<close> for a number \<open>n\<close>: zero and \<open>NaN\<close> are falsy.\<close>

definition orNull :: "jsnum \<Rightarrow> jsnum option" where
  "orNull n = (if truthy (JNum n) then Some n else None)"

text \<open>
  \<open>parseFloat(String(v || "").replace("%", "")) || null\<close>, the expression of the fields
  \<open>turnover\<close>, \<open>chg\<close> and \<open>debt_ratio\<close>. A string pattern replaces its first
  occurrence only.
\<close>

definition percentField :: "platform \<Rightarrow> jsval \<Rightarrow> error + jsnum option" where
  "percentField P v =
     andThen (ToString P (orElse v (JStr [])))
       (\<lambda>s. Inr (orNull (parseFloat (remove1 0x25 s))))"

text \<open>
  \<open>parseFloat(String(v || "").replace(/[..,]/g, "")) || null\<close>, the expression of
  \<open>amount\<close>; the class holds U+4EBF, U+4E07 and the comma.
\<close>

definition amountField :: "platform \<Rightarrow> jsval \<Rightarrow> error + jsnum option" where
  "amountField P v =
     andThen (ToString P (orElse v (JStr [])))
       (\<lambda>s. Inr (orNull (parseFloat
                (filter (\<lambda>c. \<not> (c = 0x4EBF \<or> c = 0x4E07 \<or> c = 0x2C)) s))))"

text \<open>Lines 179 to 187; the separators are the comma, U+FF0C and U+3001.\<close>

definition sectorField :: "jsval \<Rightarrow> jsval list" where
  "sectorField v =
     (case v of
        JStr s \<Rightarrow>
          map JStr (filter (\<lambda>x. x \<noteq> [])
            (map trim (split_at (\<lambda>c. c = 0x2C \<or> c = 0xFF0C \<or> c = 0x3001) s)))
      | JArr xs \<Rightarrow> xs
      | _ \<Rightarrow> [])"

text \<open>\<open>raw.date || defaultDate || new Date().toISOString().slice(0, 10)\<close>.\<close>

definition dateField :: "platform \<Rightarrow> jsval \<Rightarrow> jstring option \<Rightarrow> jsval" where
  "dateField P rawDate defaultDate =
     (if truthy rawDate then rawDate
      else (case defaultDate of
              Some d \<Rightarrow> if d \<noteq> [] then JStr d else JStr (today P)
            | None \<Rightarrow> JStr (today P)))"

definition normalizeRecord ::
  "platform \<Rightarrow> jsval \<Rightarrow> jstring option \<Rightarrow> error + SignalRecord" where
  "normalizeRecord P raw defaultDate =
     andThen (getProp raw (str ''date'')) (\<lambda>rawDate.
     andThen (getProp raw (str ''code'')) (\<lambda>rawCode.
     andThen (normalizeCode P rawCode) (\<lambda>code'.
     andThen (getProp raw (str ''name'')) (\<lambda>rawName.
     andThen (callTrim (orElse rawName (JStr []))) (\<lambda>name'.
     andThen (getProp raw (str ''sector'')) (\<lambda>rawSector.
     andThen (getProp raw (str ''sector_pattern'')) (\<lambda>rawPattern.
     andThen (parseSectorPattern P rawPattern) (\<lambda>sectorPattern.
     andThen (getProp raw (str ''turnover'')) (\<lambda>rawTurnover.
     andThen (percentField P rawTurnover) (\<lambda>turnover'.
     andThen (getProp raw (str ''chg'')) (\<lambda>rawChg.
     andThen (percentField P rawChg) (\<lambda>chg'.
     andThen (getProp raw (str ''amount'')) (\<lambda>rawAmount.
     andThen (amountField P rawAmount) (\<lambda>amount'.
     andThen (getProp raw (str ''debt_ratio'')) (\<lambda>rawDebt.
     andThen (percentField P rawDebt) (\<lambda>debt'.
       Inr \<lparr> date = dateField P rawDate defaultDate,
             code = code',
             name = name',
             sector = sectorField rawSector,
             sector_pattern = sectorPattern,
             turnover = turnover',
             chg = chg',
             amount = amount',
             debt_ratio = debt',
             score = fst (calculateScore P sectorPattern turnover'),
             reason = snd (calculateScore P sectorPattern turnover') \<rparr>
     ))))))))))))))))"

section \<open>The parser (src/unnamed/part_013, lines 11 to 157 and 222 to 260)\<close>

text \<open>
  The dictionary of \<open>mapHeaderToKey\<close>. The keys outside ASCII are, in the order of the
  source: U+65E5 U+671F (date); U+4EE3 U+7801 and U+80A1 U+7968 U+4EE3 U+7801 (code);
  U+540D U+79F0, U+80A1 U+7968, U+7B80 U+79F0 and U+80A1 U+7968 U+7B80 U+79F0 (name);
  U+677F U+5757 and U+6982 U+5FF5 (sector); the two pattern labels,
  U+677F U+5757 U+5206 U+65F6 and U+4FE1 U+53F7 (sector_pattern);
  U+6362 U+624B U+7387 and U+6362 U+624B (turnover); U+89E6 U+53D1 U+65F6 U+95F4 and
  U+65F6 U+95F4 (trigger_time); U+6DA8 U+8DCC U+5E45 and U+6DA8 U+5E45 (chg);
  U+6210 U+4EA4 U+989D (amount); U+8D44 U+4EA7 U+8D1F U+503A U+7387 (debt_ratio).

  The dictionary is an object literal, and \<open>map[h]\<close> also finds what the literal
  inherits. A lower-cased header can name two inherited properties, \<open>constructor\<close> and
  \<open>__proto__\<close>; both are truthy, and used as a property key they are converted to the
  strings of the last two entries.
\<close>

definition headerMap :: "(jstring \<times> jstring) list" where
  "headerMap =
     [([0x65E5, 0x671F], str ''date''),
      (str ''date'', str ''date''),
      ([0x4EE3, 0x7801], str ''code''),
      ([0x80A1, 0x7968, 0x4EE3, 0x7801], str ''code''),
      (str ''code'', str ''code''),
      ([0x540D, 0x79F0], str ''name''),
      ([0x80A1, 0x7968], str ''name''),
      ([0x7B80, 0x79F0], str ''name''),
      (str ''name'', str ''name''),
      ([0x80A1, 0x7968, 0x7B80, 0x79F0], str ''name''),
      ([0x677F, 0x5757], str ''sector''),
      ([0x6982, 0x5FF5], str ''sector''),
      (str ''sector'', str ''sector''),
      (label_WaterUp, str ''sector_pattern''),
      (label_TriangleNarrow, str ''sector_pattern''),
      (txt_sector_intraday, str ''sector_pattern''),
      ([0x4FE1, 0x53F7], str ''sector_pattern''),
      (txt_turnover, str ''turnover''),
      ([0x6362, 0x624B], str ''turnover''),
      (str ''turnover'', str ''turnover''),
      ([0x89E6, 0x53D1, 0x65F6, 0x95F4], str ''trigger_time''),
      ([0x65F6, 0x95F4], str ''trigger_time''),
      (str ''trigger_time'', str ''trigger_time''),
      ([0x6DA8, 0x8DCC, 0x5E45], str ''chg''),
      ([0x6DA8, 0x5E45], str ''chg''),
      (str ''chg'', str ''chg''),
      ([0x6210, 0x4EA4, 0x989D], str ''amount''),
      (str ''amount'', str ''amount''),
      ([0x8D44, 0x4EA7, 0x8D1F, 0x503A, 0x7387], str ''debt_ratio''),
      (str ''debt_ratio'', str ''debt_ratio''),
      (str ''constructor'', str ''function Object() { [native code] }''),
      (str ''__proto__'', str ''[object Object]'')]"

definition mapHeaderToKey :: "jstring \<Rightarrow> jstring option" where
  "mapHeaderToKey header = map_of headerMap (trim (toLowerCase header))"

text \<open>\<open>/^\d{6}$/.test(p.trim())\<close>.\<close>

definition extractCode :: "jstring list \<Rightarrow> jstring option" where
  "extractCode parts =
     find (\<lambda>p. length (trim p) = 6 \<and> list_all isDigit (trim p)) parts"

definition extractName :: "jstring list \<Rightarrow> jstring option" where
  "extractName parts =
     find (\<lambda>p. (case trim p of [] \<Rightarrow> False | c # _ \<Rightarrow> isCJK c \<or> isAsciiLetter c)
               \<and> \<not> list_ex isPercent p
               \<and> length p \<le> 8) parts"

definition extractSector :: "jstring list \<Rightarrow> jstring option" where
  "extractSector parts =
     find (\<lambda>p. includes_str p [0x3001]
               \<or> includes_str p (str '','')
               \<or> (length p > 4 \<and> list_ex isCJK p \<and> \<not> list_ex isPercent p)) parts"

text \<open>
  \<open>extractNumber(parts, hint)\<close>; the hint is the test of a regular expression, absent
  when no hint is passed.
\<close>

fun extractNumber :: "jstring list \<Rightarrow> (jstring \<Rightarrow> bool) option \<Rightarrow> jsnum option" where
  "extractNumber [] hint = None"
| "extractNumber (p # ps) hint =
     (if (case hint of Some test \<Rightarrow> \<not> test p | None \<Rightarrow> False) then extractNumber ps hint
      else (case parseFloat (filter (\<lambda>c. \<not> isPercent c) p) of
              NaN \<Rightarrow> extractNumber ps hint
            | n \<Rightarrow> Some n))"

text \<open>
  \<open>/[+-]?\d+\.\d+%?$/.test(t)\<close>: the text, less one final \<open>%\<close> if it has one, ends
  with digits, a dot and digits. Read from the end: the last run of digits is not empty
  and is preceded by a dot that a digit precedes.
\<close>

definition matchesChg :: "jstring \<Rightarrow> bool" where
  "matchesChg t =
     (let r = rev t;
          r1 = (case r of [] \<Rightarrow> r | c # cs \<Rightarrow> if c = 0x25 then cs else r)
      in takeWhile isDigit r1 \<noteq> []
         \<and> (case dropWhile isDigit r1 of
               dot # d # _ \<Rightarrow> dot = 0x2E \<and> isDigit d
             | _ \<Rightarrow> False))"

fun extractChg :: "jstring list \<Rightarrow> jsnum option" where
  "extractChg [] = None"
| "extractChg (p # ps) =
     (if matchesChg (trim p) then Some (parseFloat (filter (\<lambda>c. \<not> isPercent c) p))
      else extractChg ps)"

text \<open>An optional result of an extractor as a property value.\<close>

definition optStr :: "jstring option \<Rightarrow> jsval" where
  "optStr x = (case x of None \<Rightarrow> JUndefined | Some s \<Rightarrow> JStr s)"

definition optNum :: "jsnum option \<Rightarrow> jsval" where
  "optNum x = (case x of None \<Rightarrow> JUndefined | Some n \<Rightarrow> JNum n)"

text \<open>Lines 34 to 39.\<close>

definition isHeaderLine :: "jstring \<Rightarrow> bool" where
  "isHeaderLine firstLine \<longleftrightarrow>
     includes_str firstLine [0x4EE3, 0x7801] \<or> includes_str firstLine (str ''code'')
     \<or> includes_str firstLine [0x80A1, 0x7968] \<or> includes_str firstLine [0x540D, 0x79F0]"

text \<open>Lines 45 to 49: tab, then the bar, then the comma.\<close>

definition detectSeparator :: "jstring \<Rightarrow> nat" where
  "detectSeparator firstLine =
     (if includes_str firstLine [0x09] then 0x09
      else if includes_str firstLine (str ''|'') then 0x7C
      else 0x2C)"

text \<open>
  Lines 75 to 80, \<open>headers.forEach((h, i) => ...)\<close>: header \<open>i\<close> is paired with cell
  \<open>i\<close> while there is one; a later column with the same key overwrites an earlier one.
\<close>

fun fillFromHeaders ::
  "(jstring \<times> jsval) list \<Rightarrow> jstring list \<Rightarrow> jstring list \<Rightarrow> (jstring \<times> jsval) list" where
  "fillFromHeaders raw [] parts = raw"
| "fillFromHeaders raw (h # hs) [] = raw"
| "fillFromHeaders raw (h # hs) (p # ps) =
     fillFromHeaders
       (case mapHeaderToKey h of
          Some key \<Rightarrow> AList.update key (JStr p) raw
        | None \<Rightarrow> raw)
       hs ps"

text \<open>Lines 82 to 86, the positional heuristics of a table without header.\<close>

definition fillFromHeuristics :: "jstring list \<Rightarrow> (jstring \<times> jsval) list" where
  "fillFromHeuristics parts =
     [(str ''code'', optStr (extractCode parts)),
      (str ''name'', optStr (extractName parts)),
      (str ''sector'', optStr (extractSector parts)),
      (str ''turnover'', optNum (extractNumber parts (Some (\<lambda>p. includes_str p (str ''%''))))),
      (str ''chg'', optNum (extractChg parts))]"

text \<open>Lines 90 and 112: \<open>record.code || record.name\<close>.\<close>

definition identified :: "SignalRecord \<Rightarrow> bool" where
  "identified r \<longleftrightarrow> code r \<noteq> [] \<or> name r \<noteq> []"

text \<open>
  The body of the loop of lines 57 to 93 for one data line: the record pushed, or
  \<open>None\<close> when the line is skipped or its record dropped.
\<close>

definition tableRow ::
  "platform \<Rightarrow> jstring list \<Rightarrow> nat \<Rightarrow> jstring option \<Rightarrow> jstring
     \<Rightarrow> error + SignalRecord option" where
  "tableRow P headers separator defaultDate line =
     (let trimmedLine = trim line
      in if trimmedLine = [] then Inr None
         else if includes_str trimmedLine (str '':'')
                 \<and> \<not> includes_str trimmedLine (str '','')
                 \<and> \<not> includes_str trimmedLine [0x09] then Inr None
         else
           (let parts = map trim (split_at (\<lambda>c. c = separator) trimmedLine)
            in if length parts < 2 then Inr None
               else
                 (let raw = (if length headers > 0 then fillFromHeaders [] headers parts
                             else fillFromHeuristics parts)
                  in andThen (normalizeRecord P (JObj raw) defaultDate)
                       (\<lambda>record. Inr (if identified record then Some record else None)))))"

fun tableRows ::
  "platform \<Rightarrow> jstring list \<Rightarrow> nat \<Rightarrow> jstring option \<Rightarrow> jstring list
     \<Rightarrow> error + SignalRecord list" where
  "tableRows P headers separator defaultDate [] = Inr []"
| "tableRows P headers separator defaultDate (line # dataLines) =
     andThen (tableRow P headers separator defaultDate line) (\<lambda>r.
     andThen (tableRows P headers separator defaultDate dataLines) (\<lambda>records.
       Inr (case r of Some record \<Rightarrow> record # records | None \<Rightarrow> records)))"

text \<open>The non-blank lines of a text: \<open>s.split("\n").filter((l) => l.trim())\<close>.\<close>

definition nonBlankLines :: "jstring \<Rightarrow> jstring list" where
  "nonBlankLines s = filter (\<lambda>l. trim l \<noteq> []) (split_at (\<lambda>c. c = 0x0A) s)"

text \<open>
  Lines 30 to 93, the delimited-table path on the non-blank lines of the input: the
  records it collects.
\<close>

definition tablePath ::
  "platform \<Rightarrow> jstring list \<Rightarrow> jstring option \<Rightarrow> error + SignalRecord list" where
  "tablePath P lines defaultDate =
     (case lines of
        [] \<Rightarrow> Inr []
      | line0 # rest \<Rightarrow>
          (let firstLine = toLowerCase line0;
               isHeader = isHeaderLine firstLine;
               dataLines = (if isHeader then rest else lines);
               separator = detectSeparator firstLine;
               headers = (if isHeader
                          then map (\<lambda>h. toLowerCase (trim h))
                                 (split_at (\<lambda>c. c = separator) line0)
                          else [])
           in tableRows P headers separator defaultDate dataLines))"

text \<open>
  Line 103, \<open>bline.match(/^(.+?)[..:]\s*(.+)$/)\<close>, the colon being \<open>:\<close> or U+FF1A.
  The first group is the shortest non-empty prefix, free of line terminators, that a
  colon follows such that the rest can be matched; \<open>labelValue\<close> matches the rest:
  \<open>\s*\<close> takes all the white space it can and gives back one unit when nothing else is
  left for the second group, which must be free of line terminators and reach the end.
  \<open>matchLabel\<close> returns the two groups.
\<close>

definition isColon :: "nat \<Rightarrow> bool" where
  "isColon c \<longleftrightarrow> c = 0xFF1A \<or> c = 0x3A"

definition labelValue :: "jstring \<Rightarrow> jstring option" where
  "labelValue cs =
     (let r = dropWhile isWhiteSpace cs
      in if r \<noteq> [] then (if list_ex isLineTerminator r then None else Some r)
         else if cs \<noteq> [] \<and> \<not> isLineTerminator (last cs) then Some [last cs]
         else None)"

fun matchLabel :: "jstring \<Rightarrow> jstring \<Rightarrow> (jstring \<times> jstring) option" where
  "matchLabel label [] = None"
| "matchLabel label (c # cs) =
     (case (if label \<noteq> [] \<and> isColon c then labelValue cs else None) of
        Some v \<Rightarrow> Some (label, v)
      | None \<Rightarrow> if isLineTerminator c then None else matchLabel (label @ [c]) cs)"

text \<open>
  Line 97, \<open>trimmed.split(/\n\s*\n/)\<close>. A separator starts at a newline that is
  followed, within the white space after it, by another newline, and ends with the last
  such newline; \<open>splitBlocks cur s\<close> is the list of pieces of \<open>s\<close> when \<open>cur\<close> is the
  piece read so far.
\<close>

function splitBlocks :: "jstring \<Rightarrow> jstring \<Rightarrow> jstring list" where
  "splitBlocks cur [] = [cur]"
| "splitBlocks cur (c # cs) =
     (let ws = takeWhile isWhiteSpace cs
      in if c = 0x0A \<and> list_ex (\<lambda>x. x = 0x0A) ws
         then cur # splitBlocks []
                (drop (length ws - length (takeWhile (\<lambda>x. x \<noteq> 0x0A) (rev ws))) cs)
         else splitBlocks (cur @ [c]) cs)"
  by pat_completeness auto
termination
  by (relation "measure (\<lambda>(cur, s). length s)") auto

text \<open>Lines 102 to 108: the fields of one block, from its label lines.\<close>

fun blockFields :: "(jstring \<times> jsval) list \<Rightarrow> jstring list \<Rightarrow> (jstring \<times> jsval) list" where
  "blockFields raw [] = raw"
| "blockFields raw (bline # blines) =
     blockFields
       (case matchLabel [] bline of
          Some (label, v) \<Rightarrow>
            (case mapHeaderToKey (trim label) of
               Some key \<Rightarrow> AList.update key (JStr (trim v)) raw
             | None \<Rightarrow> raw)
        | None \<Rightarrow> raw)
       blines"

text \<open>Lines 99 to 115 for one block.\<close>

definition blockRecord ::
  "platform \<Rightarrow> jstring option \<Rightarrow> jstring \<Rightarrow> error + SignalRecord option" where
  "blockRecord P defaultDate block =
     (let raw = blockFields [] (nonBlankLines block)
      in if length raw > 0
         then andThen (normalizeRecord P (JObj raw) defaultDate)
                (\<lambda>record. Inr (if identified record then Some record else None))
         else Inr None)"

fun blockRows ::
  "platform \<Rightarrow> jstring option \<Rightarrow> jstring list \<Rightarrow> error + SignalRecord list" where
  "blockRows P defaultDate [] = Inr []"
| "blockRows P defaultDate (block # blocks) =
     andThen (blockRecord P defaultDate block) (\<lambda>r.
     andThen (blockRows P defaultDate blocks) (\<lambda>records.
       Inr (case r of Some record \<Rightarrow> record # records | None \<Rightarrow> records)))"

definition blockPath ::
  "platform \<Rightarrow> jstring \<Rightarrow> jstring option \<Rightarrow> error + SignalRecord list" where
  "blockPath P trimmed defaultDate = blockRows P defaultDate (splitBlocks [] trimmed)"

text \<open>\<open>arr.map((item) => normalizeRecord(item, defaultDate))\<close>.\<close>

fun mapRecords ::
  "platform \<Rightarrow> jstring option \<Rightarrow> jsval list \<Rightarrow> error + SignalRecord list" where
  "mapRecords P defaultDate [] = Inr []"
| "mapRecords P defaultDate (item # items) =
     andThen (normalizeRecord P item defaultDate) (\<lambda>record.
     andThen (mapRecords P defaultDate items) (\<lambda>records. Inr (record # records)))"

text \<open>
  Lines 20 to 23, the body of the \<open>try\<close>. \<open>JSON.parse\<close> may throw; a parsed value that
  is not an array has no method \<open>map\<close>, and calling it throws.
\<close>

definition jsonPath ::
  "platform \<Rightarrow> jstring \<Rightarrow> jstring option \<Rightarrow> error + SignalRecord list" where
  "jsonPath P trimmed defaultDate =
     andThen (JSON_parse P trimmed)
       (\<lambda>arr. case arr of JArr items \<Rightarrow> mapRecords P defaultDate items | _ \<Rightarrow> Inl TypeError)"

text \<open>Lines 29 to 119: the table path, then the block path if it found nothing.\<close>

definition textPaths ::
  "platform \<Rightarrow> jstring \<Rightarrow> jstring option \<Rightarrow> error + SignalRecord list" where
  "textPaths P trimmed defaultDate =
     (let lines = nonBlankLines trimmed
      in if length lines = 0 then Inr []
         else andThen (tablePath P lines defaultDate)
                (\<lambda>records. if length records = 0 then blockPath P trimmed defaultDate
                           else Inr records))"

text \<open>
  \<open>parseSignalText(text, defaultDate)\<close>. \<open>Inl\<close> is an exception that leaves the
  function; the \<open>catch\<close> of line 24 turns every exception of the JSON path into the
  fall through to the text paths.
\<close>

definition parseSignalText ::
  "platform \<Rightarrow> jstring \<Rightarrow> jstring option \<Rightarrow> error + SignalRecord list" where
  "parseSignalText P text defaultDate =
     (let trimmed = trim text
      in if startsWith trimmed (str ''['')
         then (case jsonPath P trimmed defaultDate of
                 Inr records \<Rightarrow> Inr records
               | Inl e \<Rightarrow> textPaths P trimmed defaultDate)
         else textPaths P trimmed defaultDate)"

section \<open>A host for the examples\<close>

text \<open>
  The examples below that need the host use this one. It gives \<open>JSON.parse\<close> on the
  JSON texts of the examples, where it returns what the JSON grammar says, and the
  decimal rendering of the numbers of the examples; on every other text \<open>JSON.parse\<close> is
  taken to throw, and no other number is rendered.
\<close>

definition sample_JSON_parse :: "jstring \<Rightarrow> error + jsval" where
  "sample_JSON_parse s =
     (if s = str ''[{}]'' then Inr (JArr [JObj []])
      else if s = str ''[null]'' then Inr (JArr [JNull])
      else if s = str ''[1,\"x\"]'' then Inr (JArr [JNum (Fin 1), JStr (str ''x'')])
      else if s = str ''[{\"code\":\"600519\",\"turnover\":\"9\",\"score\":99}]''
        then Inr (JArr [JObj [(str ''code'', JStr (str ''600519'')),
                              (str ''turnover'', JStr (str ''9'')),
                              (str ''score'', JNum (Fin 99))]])
      else Inl SyntaxError)"

definition sample_Number_toString :: "jsnum \<Rightarrow> jstring" where
  "sample_Number_toString n =
     (case n of
        NaN \<Rightarrow> str ''NaN''
      | PosInf \<Rightarrow> str ''Infinity''
      | NegInf \<Rightarrow> str ''-Infinity''
      | Fin r \<Rightarrow> if r = 0 then str ''0'' else if r = 8 then str ''8''
                 else if r = 9 then str ''9'' else if r = 12 then str ''12''
                 else if r = 13 / 2 then str ''6.5'' else [])"

definition sample_host :: platform where
  "sample_host =
     \<lparr> JSON_parse = sample_JSON_parse,
       Number_toString = sample_Number_toString,
       today = str ''2026-01-05'' \<rparr>"

section \<open>Notions used in the proofs\<close>

text \<open>A value whose conversion to a string cannot throw: neither an array nor an object.\<close>

definition plain :: "jsval \<Rightarrow> bool" where
  "plain v = (case v of JArr xs \<Rightarrow> False | JObj kvs \<Rightarrow> False | _ \<Rightarrow> True)"

text \<open>
  The raw field bags that the two text paths build: every value is plain, and the name is
  a string or absent.
\<close>

definition textBag :: "(jstring \<times> jsval) list \<Rightarrow> bool" where
  "textBag raw \<longleftrightarrow>
     (\<forall>k v. map_of raw k = Some v \<longrightarrow> plain v)
     \<and> (\<forall>v. map_of raw (str ''name'') = Some v \<longrightarrow> v = JUndefined \<or> (\<exists>s. v = JStr s))"

definition stringBag :: "(jstring \<times> jsval) list \<Rightarrow> bool" where
  "stringBag raw \<longleftrightarrow> (\<forall>k v. map_of raw k = Some v \<longrightarrow> (\<exists>s. v = JStr s))"

text \<open>The score and the reasons of a record are those of the scoring engine.\<close>

definition scored :: "platform \<Rightarrow> SignalRecord \<Rightarrow> bool" where
  "scored P r \<longleftrightarrow>
     score r = fst (calculateScore P (sector_pattern r) (turnover r))
     \<and> reason r = snd (calculateScore P (sector_pattern r) (turnover r))"

text \<open>The inputs of the examples.\<close>

definition scenarioB :: jstring where
  \<comment> \<open>the header U+4EE3 U+7801, U+540D U+79F0, U+6362 U+624B U+7387 (code, name,
      turnover), a newline, and the row 002371,Y,6.5\<close>
  "scenarioB =
     [0x4EE3, 0x7801, 0x2C, 0x540D, 0x79F0, 0x2C, 0x6362, 0x624B, 0x7387, 0x0A]
       @ str ''002371,Y,6.5''"

definition zeroTurnoverTable :: jstring where
  "zeroTurnoverTable = str ''code,turnover'' @ [0x0A] @ str ''600519,0''"

section \<open>Properties of the scoring engine\<close>

lemma patternRule_range: "fst (patternRule sp) \<in> {0, 20, 30}"
  by (simp add: patternRule_def split: option.split pattern.split)

lemma turnoverRule_range: "fst (turnoverRule P t) \<in> {0, 10, 20, 30}"
  by (simp add: turnoverRule_def split: option.split)

text \<open>
  C6. The turnover thresholds are mutually exclusive tiers. The bonus added for a
  turnover is one of 0, 10, 20, 30, decided by the highest tier reached alone: 30 from
  8 up, 20 from 5 up to 8, 10 from 3 up to 5, nothing below 3 or for a missing
  turnover. The score of a record is the pattern points plus that single bonus, and
  with no pattern and turnover 8 the score is 30, not 60.
\<close>

theorem C6_turnover_tiers_exclusive:
  "turnoverBonus P None = 0
   \<and> turnoverBonus P (Some (Fin t)) =
       (if 8 \<le> t then 30 else if 5 \<le> t then 20 else if 3 \<le> t then 10 else 0)
   \<and> turnoverBonus P (Some tv) \<in> {0, 10, 20, 30}
   \<and> fst (calculateScore P sp (Some tv)) = fst (patternRule sp) + turnoverBonus P (Some tv)
   \<and> fst (calculateScore P None (Some (Fin 8))) = 30"
proof -
  have b: "fst (patternRule sp) \<in> {0, 20, 30}"
    by (rule patternRule_range)
  have t: "fst (turnoverRule P (Some tv)) \<in> {0, 10, 20, 30}"
    by (rule turnoverRule_range)
  have s: "fst (calculateScore P sp (Some tv))
             = fst (patternRule sp) + turnoverBonus P (Some tv)"
    using b t by (auto simp: calculateScore_def ruleTotal_def turnoverBonus_def Let_def)
  have e: "fst (calculateScore P None (Some (Fin 8))) = 30"
    by (simp add: calculateScore_def ruleTotal_def patternRule_def turnoverRule_def Let_def)
  show ?thesis
    using t s e by (simp add: turnoverBonus_def turnoverRule_def)
qed

theorem C6_turnover_tiers_exclusive_witness:
  "turnoverBonus sample_host None = 0
   \<and> turnoverBonus sample_host (Some (Fin 6)) = 20
   \<and> fst (calculateScore sample_host (Some WaterUp) (Some (Fin 9))) = 60
   \<and> fst (calculateScore sample_host None (Some (Fin 8))) = 30"
  using C6_turnover_tiers_exclusive [of sample_host 6 "Fin 9" "Some WaterUp"]
  by (simp add: patternRule_def turnoverBonus_def turnoverRule_def)

text \<open>
  C7. For every sector pattern (either label or none) and every turnover (a number or
  none) the total of the rules before the clamp lies between 0 and 60, so the clamp to
  0..100 returns it unchanged, and the returned score lies between 0 and 100.
\<close>

theorem C7_score_range:
  "0 \<le> ruleTotal P sp tv \<and> ruleTotal P sp tv \<le> 60
   \<and> fst (calculateScore P sp tv) = ruleTotal P sp tv
   \<and> 0 \<le> fst (calculateScore P sp tv) \<and> fst (calculateScore P sp tv) \<le> 100"
proof -
  have b: "fst (patternRule sp) \<in> {0, 20, 30}"
    by (rule patternRule_range)
  have t: "fst (turnoverRule P tv) \<in> {0, 10, 20, 30}"
    by (rule turnoverRule_range)
  have r: "0 \<le> ruleTotal P sp tv \<and> ruleTotal P sp tv \<le> 60"
    using b t by (auto simp: ruleTotal_def)
  then show ?thesis
    by (simp add: calculateScore_def Let_def)
qed

theorem C7_score_range_witness:
  "ruleTotal sample_host (Some WaterUp) (Some (Fin 12)) = 60
   \<and> fst (calculateScore sample_host (Some WaterUp) (Some (Fin 12))) = 60"
  using C7_score_range [of sample_host "Some WaterUp" "Some (Fin 12)"]
  by (simp add: ruleTotal_def patternRule_def turnoverRule_def)


section \<open>Exceptions and where the records come from\<close>

lemma andThen_Inr: "andThen m f = Inr y \<longleftrightarrow> (\<exists>x. m = Inr x \<and> f x = Inr y)"
  by (cases m) (simp_all add: andThen_def)

lemma andThen_step: "m = Inr x \<Longrightarrow> andThen m f = f x"
  by (simp add: andThen_def)

lemma ToString_plain: "plain v \<Longrightarrow> \<exists>s. ToString P v = Inr s"
  by (cases v) (simp_all add: plain_def)

lemma plain_orElse: "plain v \<Longrightarrow> plain (orElse v (JStr []))"
  by (simp add: orElse_def plain_def)

lemma normalizeCode_plain: "plain v \<Longrightarrow> \<exists>s. normalizeCode P v = Inr s"
  using ToString_plain [of v P] by (auto simp: normalizeCode_def andThen_def)

lemma parseSectorPattern_plain: "plain v \<Longrightarrow> \<exists>p. parseSectorPattern P v = Inr p"
  using ToString_plain [OF plain_orElse, of v P]
  by (auto simp: parseSectorPattern_def andThen_def Let_def)

lemma percentField_plain: "plain v \<Longrightarrow> \<exists>n. percentField P v = Inr n"
  using ToString_plain [OF plain_orElse, of v P]
  by (auto simp: percentField_def andThen_def)

lemma amountField_plain: "plain v \<Longrightarrow> \<exists>n. amountField P v = Inr n"
  using ToString_plain [OF plain_orElse, of v P]
  by (auto simp: amountField_def andThen_def)

lemma getProp_bag:
  "textBag raw \<Longrightarrow> \<exists>v. getProp (JObj raw) k = Inr v \<and> plain v"
  by (auto simp: getProp_def textBag_def plain_def split: option.split)

lemma getProp_name:
  "textBag raw \<Longrightarrow> \<exists>s. callTrim (orElse (case map_of raw (str ''name'') of
       None \<Rightarrow> JUndefined | Some v \<Rightarrow> v) (JStr [])) = Inr s"
  by (auto simp: textBag_def callTrim_def orElse_def split: option.split)

text \<open>Normalizing a bag built by a text path throws nothing.\<close>

lemma normalizeRecord_textBag:
  assumes "textBag raw"
  shows "\<exists>r. normalizeRecord P (JObj raw) dd = Inr r"
proof -
  have g: "\<And>k. getProp (JObj raw) k
             = Inr (case map_of raw k of None \<Rightarrow> JUndefined | Some v \<Rightarrow> v)"
    by (simp add: getProp_def)
  have p: "\<And>k. plain (case map_of raw k of None \<Rightarrow> JUndefined | Some v \<Rightarrow> v)"
    using getProp_bag [OF assms] by (simp add: g)
  obtain c where c: "normalizeCode P (case map_of raw (str ''code'') of
      None \<Rightarrow> JUndefined | Some v \<Rightarrow> v) = Inr c"
    using normalizeCode_plain [OF p] by blast
  obtain n where n: "callTrim (orElse (case map_of raw (str ''name'') of
      None \<Rightarrow> JUndefined | Some v \<Rightarrow> v) (JStr [])) = Inr n"
    using getProp_name [OF assms] by blast
  obtain sp where sp: "parseSectorPattern P (case map_of raw (str ''sector_pattern'') of
      None \<Rightarrow> JUndefined | Some v \<Rightarrow> v) = Inr sp"
    using parseSectorPattern_plain [OF p] by blast
  obtain t where t: "percentField P (case map_of raw (str ''turnover'') of
      None \<Rightarrow> JUndefined | Some v \<Rightarrow> v) = Inr t"
    using percentField_plain [OF p] by blast
  obtain ch where ch: "percentField P (case map_of raw (str ''chg'') of
      None \<Rightarrow> JUndefined | Some v \<Rightarrow> v) = Inr ch"
    using percentField_plain [OF p] by blast
  obtain a where a: "amountField P (case map_of raw (str ''amount'') of
      None \<Rightarrow> JUndefined | Some v \<Rightarrow> v) = Inr a"
    using amountField_plain [OF p] by blast
  obtain d where d: "percentField P (case map_of raw (str ''debt_ratio'') of
      None \<Rightarrow> JUndefined | Some v \<Rightarrow> v) = Inr d"
    using percentField_plain [OF p] by blast
  show ?thesis
    unfolding normalizeRecord_def g
    by (simp add: andThen_def c n sp t ch a d)
qed

lemma normalizeRecord_scored: "normalizeRecord P raw dd = Inr r \<Longrightarrow> scored P r"
  unfolding normalizeRecord_def andThen_Inr scored_def by auto

lemma stringBag_textBag: "stringBag raw \<Longrightarrow> textBag raw"
  by (fastforce simp: stringBag_def textBag_def plain_def)

lemma stringBag_update: "stringBag raw \<Longrightarrow> stringBag (AList.update k (JStr s) raw)"
  by (simp add: stringBag_def update_conv')

lemma stringBag_fillFromHeaders:
  "stringBag raw \<Longrightarrow> stringBag (fillFromHeaders raw hs ps)"
  by (induction raw hs ps rule: fillFromHeaders.induct)
     (auto simp: stringBag_update split: option.split)

lemma stringBag_blockFields:
  "stringBag raw \<Longrightarrow> stringBag (blockFields raw blines)"
  by (induction raw blines rule: blockFields.induct)
     (auto simp: stringBag_update split: option.split)

lemma stringBag_Nil: "stringBag []"
  by (simp add: stringBag_def)

lemma str_inject: "str a = str b \<longleftrightarrow> a = b"
proof -
  have "inj (of_char :: char \<Rightarrow> nat)"
    by (rule inj_onI) simp
  then show ?thesis
    by (simp add: str_def inj_map_eq_map)
qed

lemma textBag_fillFromHeuristics: "textBag (fillFromHeuristics parts)"
  by (auto simp: textBag_def fillFromHeuristics_def str_inject plain_def optStr_def optNum_def
           split: if_splits option.splits)

lemma tableRow_total: "\<exists>x. tableRow P hs sep dd l = Inr x"
proof -
  obtain r where r: "normalizeRecord P
          (JObj (if length hs > 0
                 then fillFromHeaders [] hs (map trim (split_at (\<lambda>c. c = sep) (trim l)))
                 else fillFromHeuristics (map trim (split_at (\<lambda>c. c = sep) (trim l))))) dd
        = Inr r"
    using normalizeRecord_textBag textBag_fillFromHeuristics
      stringBag_textBag [OF stringBag_fillFromHeaders [OF stringBag_Nil]]
    by (metis (full_types))
  show ?thesis
    unfolding tableRow_def Let_def r andThen_def by simp
qed

lemma tableRows_total: "\<exists>rs. tableRows P hs sep dd ls = Inr rs"
proof (induction ls)
  case Nil
  show ?case by simp
next
  case (Cons l ls)
  obtain x where "tableRow P hs sep dd l = Inr x"
    using tableRow_total by blast
  with Cons show ?case by (auto simp: andThen_def)
qed

lemma tablePath_total: "\<exists>rs. tablePath P ls dd = Inr rs"
  by (cases ls) (simp_all add: tablePath_def Let_def tableRows_total)

lemma blockRecord_total: "\<exists>x. blockRecord P dd b = Inr x"
proof -
  obtain r where r: "normalizeRecord P (JObj (blockFields [] (nonBlankLines b))) dd = Inr r"
    using normalizeRecord_textBag
      stringBag_textBag [OF stringBag_blockFields [OF stringBag_Nil]]
    by blast
  show ?thesis
    unfolding blockRecord_def Let_def r andThen_def by simp
qed

lemma blockRows_total: "\<exists>rs. blockRows P dd bs = Inr rs"
proof (induction bs)
  case Nil
  show ?case by simp
next
  case (Cons b bs)
  obtain x where "blockRecord P dd b = Inr x"
    using blockRecord_total by blast
  with Cons show ?case by (auto simp: andThen_def)
qed

lemma textPaths_total: "\<exists>rs. textPaths P s dd = Inr rs"
proof -
  obtain rs where "tablePath P (nonBlankLines s) dd = Inr rs"
    using tablePath_total by blast
  then show ?thesis
    using blockRows_total [of P dd "splitBlocks [] s"]
    by (auto simp: textPaths_def Let_def andThen_def blockPath_def)
qed

text \<open>Every record of a result is an output of record normalization.\<close>

lemma tableRow_Some:
  "tableRow P hs sep dd l = Inr (Some r)
   \<Longrightarrow> (\<exists>raw. normalizeRecord P raw dd = Inr r) \<and> identified r"
  by (auto simp: tableRow_def Let_def andThen_Inr split: if_splits)

lemma tableRows_member:
  "tableRows P hs sep dd ls = Inr rs \<Longrightarrow> r \<in> set rs
   \<Longrightarrow> (\<exists>raw. normalizeRecord P raw dd = Inr r) \<and> identified r"
proof (induction ls arbitrary: rs)
  case Nil
  then show ?case by simp
next
  case (Cons l ls)
  from Cons.prems(1) obtain x rs' where
    x: "tableRow P hs sep dd l = Inr x" and
    rs': "tableRows P hs sep dd ls = Inr rs'" and
    rs: "rs = (case x of Some record \<Rightarrow> record # rs' | None \<Rightarrow> rs')"
    by (auto simp: andThen_Inr)
  show ?case
  proof (cases "r \<in> set rs'")
    case True
    then show ?thesis using Cons.IH [OF rs'] by simp
  next
    case False
    with Cons.prems(2) rs have "x = Some r"
      by (cases x) auto
    then show ?thesis using x tableRow_Some by simp
  qed
qed

lemma blockRecord_Some:
  "blockRecord P dd b = Inr (Some r)
   \<Longrightarrow> (\<exists>raw. normalizeRecord P raw dd = Inr r) \<and> identified r"
  by (auto simp: blockRecord_def Let_def andThen_Inr split: if_splits)

lemma blockRows_member:
  "blockRows P dd bs = Inr rs \<Longrightarrow> r \<in> set rs
   \<Longrightarrow> (\<exists>raw. normalizeRecord P raw dd = Inr r) \<and> identified r"
proof (induction bs arbitrary: rs)
  case Nil
  then show ?case by simp
next
  case (Cons b bs)
  from Cons.prems(1) obtain x rs' where
    x: "blockRecord P dd b = Inr x" and
    rs': "blockRows P dd bs = Inr rs'" and
    rs: "rs = (case x of Some record \<Rightarrow> record # rs' | None \<Rightarrow> rs')"
    by (auto simp: andThen_Inr)
  show ?case
  proof (cases "r \<in> set rs'")
    case True
    then show ?thesis using Cons.IH [OF rs'] by simp
  next
    case False
    with Cons.prems(2) rs have "x = Some r"
      by (cases x) auto
    then show ?thesis using x blockRecord_Some by simp
  qed
qed

lemma textPaths_member:
  assumes "textPaths P s dd = Inr rs" and "r \<in> set rs"
  shows "(\<exists>raw. normalizeRecord P raw dd = Inr r) \<and> identified r"
proof (cases "length (nonBlankLines s) = 0")
  case True
  with assms show ?thesis by (simp add: textPaths_def)
next
  case ne: False
  with assms(1) obtain ts where
    ts: "tablePath P (nonBlankLines s) dd = Inr ts" and
    res: "(if length ts = 0 then blockPath P s dd else Inr ts) = Inr rs"
    by (auto simp: textPaths_def Let_def andThen_Inr)
  show ?thesis
  proof (cases "length ts = 0")
    case True
    with res have "blockRows P dd (splitBlocks [] s) = Inr rs"
      by (simp add: blockPath_def)
    then show ?thesis using assms(2) blockRows_member by blast
  next
    case False
    with res have eq: "ts = rs" by simp
    from ts ne obtain hs sep ls where "tableRows P hs sep dd ls = Inr ts"
      by (cases "nonBlankLines s") (auto simp: tablePath_def Let_def)
    then show ?thesis using assms(2) eq tableRows_member by blast
  qed
qed

lemma mapRecords_member:
  "mapRecords P dd items = Inr rs \<Longrightarrow> r \<in> set rs
   \<Longrightarrow> \<exists>raw. normalizeRecord P raw dd = Inr r"
proof (induction items arbitrary: rs)
  case Nil
  then show ?case by simp
next
  case (Cons item items)
  then show ?case by (auto simp: andThen_Inr)
qed

lemma parseSignalText_member:
  assumes "parseSignalText P text dd = Inr rs" and "r \<in> set rs"
  shows "\<exists>raw. normalizeRecord P raw dd = Inr r"
proof (cases "startsWith (trim text) (str ''['')")
  case False
  with assms(1) have "textPaths P (trim text) dd = Inr rs"
    by (simp add: parseSignalText_def)
  then show ?thesis using assms(2) textPaths_member by blast
next
  case True
  show ?thesis
  proof (cases "jsonPath P (trim text) dd")
    case (Inl e)
    with True assms(1) have "textPaths P (trim text) dd = Inr rs"
      by (simp add: parseSignalText_def)
    then show ?thesis using assms(2) textPaths_member by blast
  next
    case (Inr js)
    with True assms(1) have "js = rs"
      by (simp add: parseSignalText_def)
    with Inr obtain arr where
      "(case arr of JArr items \<Rightarrow> mapRecords P dd items | _ \<Rightarrow> Inl TypeError) = Inr rs"
      by (auto simp: jsonPath_def andThen_Inr)
    then obtain items where "mapRecords P dd items = Inr rs"
      by (cases arr) auto
    then show ?thesis using assms(2) mapRecords_member by blast
  qed
qed

section \<open>The parser on concrete inputs\<close>

lemmas text_ops =
  str_def trim_def isWhiteSpace_def isLineTerminator_def isDigit_def isPercent_def isCJK_def
  isAsciiLetter_def toLowerCase_def startsWith_def padStart_def isColon_def

lemmas number_ops =
  digitsValue_def readSign_def readExponent_def scale10_def parseFloat_def orNull_def

lemmas scoring_ops =
  calculateScore_def ruleTotal_def patternRule_def turnoverRule_def
  label_WaterUp_def label_TriangleNarrow_def txt_sector_intraday_def txt_turnover_def
  txt_info_missing_def txt_insufficient_def

lemmas record_ops =
  orElse_def andThen_def getProp_def callTrim_def normalizeCode_def parseSectorPattern_def
  percentField_def amountField_def sectorField_def dateField_def normalizeRecord_def

lemmas parser_ops =
  headerMap_def mapHeaderToKey_def extractCode_def extractName_def extractSector_def
  matchesChg_def optStr_def optNum_def isHeaderLine_def detectSeparator_def
  fillFromHeuristics_def identified_def tableRow_def nonBlankLines_def tablePath_def
  labelValue_def blockRecord_def blockPath_def jsonPath_def textPaths_def parseSignalText_def

lemmas host_ops = sample_host_def sample_JSON_parse_def sample_Number_toString_def

lemma replicate_numeral: "replicate (numeral k) x = x # replicate (pred_numeral k) x"
  by (simp add: numeral_eq_Suc)

lemma split_at_absent: "\<not> list_ex sep s \<Longrightarrow> split_at sep s = [s]"
  by (induction s) auto

section \<open>The claims about the parser\<close>

text \<open>
  C1. For every input text, \<open>parseSignalText\<close> returns a list of records and throws no
  exception, whatever the host's \<open>JSON.parse\<close> does; and an exception inside the JSON
  path (malformed JSON, a \<open>null\<close> element, a value that cannot be converted) makes the
  parser go on with the text paths on the same input.
\<close>

theorem C1_parseSignalText_never_throws:
  "(\<exists>records. parseSignalText P text dd = Inr records)
   \<and> (\<forall>e. jsonPath P (trim text) dd = Inl e
          \<longrightarrow> parseSignalText P text dd = textPaths P (trim text) dd)"
proof -
  obtain ts where ts: "textPaths P (trim text) dd = Inr ts"
    using textPaths_total by blast
  have "\<exists>records. parseSignalText P text dd = Inr records"
    by (cases "jsonPath P (trim text) dd") (simp_all add: parseSignalText_def Let_def ts)
  moreover have "\<forall>e. jsonPath P (trim text) dd = Inl e
          \<longrightarrow> parseSignalText P text dd = textPaths P (trim text) dd"
    by (auto simp: parseSignalText_def Let_def)
  ultimately show ?thesis by blast
qed

theorem C1_parseSignalText_never_throws_witness:
  "jsonPath sample_host (trim (str ''[null]'')) None = Inl TypeError
   \<and> parseSignalText sample_host (str ''[null]'') None = Inr []
   \<and> parseSignalText sample_host (str ''[{invalid'') None = Inr []
   \<and> parseSignalText sample_host [] None = Inr []
   \<and> (\<exists>a b. parseSignalText sample_host (str ''[1,\"x\"]'') None = Inr [a, b])"
proof -
  have j: "jsonPath sample_host (trim (str ''[null]'')) None = Inl TypeError"
    by (simp add: host_ops text_ops record_ops jsonPath_def)
  have t: "textPaths sample_host (trim (str ''[null]'')) None = Inr []"
    by (simp add: text_ops number_ops scoring_ops record_ops parser_ops Let_def)
  have n: "parseSignalText sample_host (str ''[null]'') None = Inr []"
    using C1_parseSignalText_never_throws [of sample_host "str ''[null]''" None] j t
    by simp
  have m: "parseSignalText sample_host (str ''[{invalid'') None = Inr []"
    by (simp add: host_ops text_ops number_ops scoring_ops record_ops parser_ops Let_def)
  have e: "parseSignalText sample_host [] None = Inr []"
    by (simp add: host_ops text_ops number_ops scoring_ops record_ops parser_ops Let_def)
  have x: "\<exists>a b. parseSignalText sample_host (str ''[1,\"x\"]'') None = Inr [a, b]"
    by (simp add: host_ops text_ops number_ops scoring_ops record_ops parser_ops Let_def)
  show ?thesis
    using j n m e x by blast
qed

text \<open>
  C2, on the JSON path. The input \<open>[{}]\<close> is a JSON array of one object without
  fields: the parser returns one record whose code and name are both empty. The JSON
  path returns every normalized element (line 21) and has no test like those of lines
  90 and 112.
\<close>

theorem C2_json_path_keeps_unidentified_record:
  "\<exists>r. parseSignalText sample_host (str ''[{}]'') None = Inr [r]
       \<and> code r = [] \<and> name r = []"
  by (simp add: host_ops text_ops number_ops scoring_ops record_ops parser_ops Let_def)

text \<open>
  C3, on the header table of the specification's scenario B, which has no sector
  column: the one record returned has the empty list as its sector, not a placeholder.
\<close>

theorem C3_sector_left_empty:
  "\<exists>r. parseSignalText P scenarioB dd = Inr [r] \<and> sector r = []"
  by (simp add: scenarioB_def text_ops number_ops scoring_ops record_ops parser_ops Let_def)

text \<open>
  C4, on a raw turnover of zero. \<open>parseFloat\<close> reads \<open>0\<close> as the number 0, which is
  falsy, so \<open>|| null\<close> turns it into \<open>null\<close>: the texts \<open>0\<close> and \<open>0%\<close> and the number
  0 all normalize to \<open>null\<close>, and the table with the row \<open>600519,0\<close> under the header
  \<open>code,turnover\<close> yields a record without turnover.
\<close>

theorem C4_zero_turnover_becomes_null:
  "parseFloat (str ''0'') = Fin 0
   \<and> percentField P (JStr (str ''0'')) = Inr None
   \<and> percentField P (JStr (str ''0%'')) = Inr None
   \<and> percentField P (JNum (Fin 0)) = Inr None
   \<and> (\<exists>r. parseSignalText P zeroTurnoverTable dd = Inr [r]
           \<and> code r = str ''600519'' \<and> turnover r = None)"
proof -
  have a: "parseFloat (str ''0'') = Fin 0"
    by (simp add: text_ops number_ops Let_def)
  have b: "percentField P (JStr (str ''0'')) = Inr None"
    by (simp add: text_ops number_ops record_ops Let_def)
  have c: "percentField P (JStr (str ''0%'')) = Inr None"
    by (simp add: text_ops number_ops record_ops Let_def)
  have d: "percentField P (JNum (Fin 0)) = Inr None"
    by (simp add: text_ops number_ops record_ops Let_def)
  have e: "\<exists>r. parseSignalText P zeroTurnoverTable dd = Inr [r]
           \<and> code r = str ''600519'' \<and> turnover r = None"
    by (simp add: zeroTurnoverTable_def text_ops number_ops scoring_ops record_ops
          parser_ops Let_def)
  show ?thesis
    using a b c d e by blast
qed

text \<open>
  C5. Every record that \<open>parseSignalText\<close> returns carries the score and the reasons
  that \<open>calculateScore\<close> computes from the record's own sector pattern and turnover.
  Record normalization never reads a \<open>score\<close> or \<open>reason\<close> of the raw input: adding
  them to a raw object changes nothing.
\<close>

theorem C5_score_recomputed:
  "(parseSignalText P text dd = Inr records \<and> r \<in> set records
      \<longrightarrow> score r = fst (calculateScore P (sector_pattern r) (turnover r))
          \<and> reason r = snd (calculateScore P (sector_pattern r) (turnover r)))
   \<and> normalizeRecord P (JObj ((str ''score'', v) # (str ''reason'', w) # raw)) dd
       = normalizeRecord P (JObj raw) dd"
proof -
  have "scored P r" if "parseSignalText P text dd = Inr records" and "r \<in> set records"
    using parseSignalText_member [OF that] normalizeRecord_scored by blast
  moreover have "normalizeRecord P (JObj ((str ''score'', v) # (str ''reason'', w) # raw)) dd
       = normalizeRecord P (JObj raw) dd"
    by (simp add: normalizeRecord_def getProp_def str_inject)
  ultimately show ?thesis
    by (simp add: scored_def)
qed

theorem C5_score_recomputed_witness:
  "\<exists>r. parseSignalText sample_host
          (str ''[{\"code\":\"600519\",\"turnover\":\"9\",\"score\":99}]'') None = Inr [r]
       \<and> score r = fst (calculateScore sample_host (sector_pattern r) (turnover r))
       \<and> score r = 30"
proof -
  obtain r where e: "parseSignalText sample_host
          (str ''[{\"code\":\"600519\",\"turnover\":\"9\",\"score\":99}]'') None = Inr [r]"
    and s: "score r = 30"
    by (simp add: host_ops text_ops number_ops scoring_ops record_ops parser_ops Let_def)
  have "r \<in> set [r]" by simp
  with C5_score_recomputed [of sample_host
          "str ''[{\"code\":\"600519\",\"turnover\":\"9\",\"score\":99}]''" None "[r]" r] e
  have "score r = fst (calculateScore sample_host (sector_pattern r) (turnover r))"
    by blast
  with e s show ?thesis by blast
qed

text \<open>
  C8. \<open>normalizeCode\<close> removes every unit that is not a digit and pads on the left
  with \<open>0\<close> to length 6. On a non-empty string of at most 6 digits the result has
  length 6 and is the input after the zeros; a string of more than 6 digits is returned
  as it is; the empty string, \<open>null\<close> and \<open>undefined\<close> give the empty string.
\<close>

theorem C8_normalizeCode:
  "(s \<noteq> [] \<longrightarrow> normalizeCode P (JStr s) = Inr (padStart 6 0x30 (filter isDigit s)))
   \<and> (d \<noteq> [] \<and> list_all isDigit d \<and> length d \<le> 6
        \<longrightarrow> normalizeCode P (JStr d) = Inr (replicate (6 - length d) 0x30 @ d)
            \<and> length (replicate (6 - length d) 0x30 @ d) = 6)
   \<and> (list_all isDigit l \<and> 6 < length l \<longrightarrow> normalizeCode P (JStr l) = Inr l)
   \<and> normalizeCode P (JStr []) = Inr []
   \<and> normalizeCode P JNull = Inr []
   \<and> normalizeCode P JUndefined = Inr []
   \<and> normalizeCode P (JStr (str ''600519'')) = Inr (str ''600519'')
   \<and> normalizeCode P (JStr (str ''1'')) = Inr (str ''000001'')"
proof -
  have f: "list_all isDigit x \<Longrightarrow> filter isDigit x = x" for x
    by (induction x) auto
  have a: "s \<noteq> [] \<longrightarrow> normalizeCode P (JStr s) = Inr (padStart 6 0x30 (filter isDigit s))"
    by (simp add: normalizeCode_def andThen_def)
  have b: "d \<noteq> [] \<and> list_all isDigit d \<and> length d \<le> 6
        \<longrightarrow> normalizeCode P (JStr d) = Inr (replicate (6 - length d) 0x30 @ d)
            \<and> length (replicate (6 - length d) 0x30 @ d) = 6"
    by (simp add: normalizeCode_def andThen_def padStart_def f)
  have c: "list_all isDigit l \<and> 6 < length l \<longrightarrow> normalizeCode P (JStr l) = Inr l"
    by (auto simp: normalizeCode_def andThen_def padStart_def f)
  have e: "normalizeCode P (JStr []) = Inr [] \<and> normalizeCode P JNull = Inr []
           \<and> normalizeCode P JUndefined = Inr []"
    by (simp add: normalizeCode_def)
  have g: "normalizeCode P (JStr (str ''600519'')) = Inr (str ''600519'')
           \<and> normalizeCode P (JStr (str ''1'')) = Inr (str ''000001'')"
    by (simp add: normalizeCode_def andThen_def text_ops replicate_numeral)
  show ?thesis
    using a b c e g by blast
qed

theorem C8_normalizeCode_witness:
  "normalizeCode sample_host (JStr (str ''6a0-05 19'')) = Inr (str ''600519'')
   \<and> normalizeCode sample_host (JStr (str ''42'')) = Inr (str ''000042'')
   \<and> normalizeCode sample_host (JStr (str ''1234567'')) = Inr (str ''1234567'')"
  using C8_normalizeCode [of "str ''6a0-05 19''" sample_host "str ''42''" "str ''1234567''"]
  by (simp add: text_ops replicate_numeral)

text \<open>
  C9. The header table of scenario B (header code, name, turnover; row
  \<open>002371,Y,6.5\<close>) parses to exactly one record, with code \<open>002371\<close>, name \<open>Y\<close>,
  turnover 6.5, no sector pattern and score 20.
\<close>

theorem C9_scenario_B:
  "\<exists>r. parseSignalText P scenarioB dd = Inr [r]
       \<and> code r = str ''002371'' \<and> name r = str ''Y'' \<and> turnover r = Some (Fin (13 / 2))
       \<and> sector_pattern r = None \<and> score r = 20"
  by (simp add: scenarioB_def text_ops number_ops scoring_ops record_ops parser_ops Let_def)

theorem C9_scenario_B_witness:
  "\<exists>r. parseSignalText sample_host scenarioB None = Inr [r]
       \<and> code r = str ''002371'' \<and> name r = str ''Y'' \<and> turnover r = Some (Fin (13 / 2))
       \<and> sector_pattern r = None \<and> score r = 20"
  by (rule C9_scenario_B [of sample_host None])

text \<open>
  C10. In the table path a data line that splits into fewer than two cells under the
  separator yields no record, whatever it holds and with or without headers; so data
  lines that do not contain the separator yield no record at all. In particular the
  single line \<open>600519\<close>, which is no header and has no comma, gives no record in the
  table path (and none in the whole parser).
\<close>

theorem C10_single_cell_line_skipped:
  "(length (split_at (\<lambda>c. c = separator) (trim line)) < 2
      \<longrightarrow> tableRow P headers separator dd line = Inr None)
   \<and> ((\<forall>l \<in> set dataLines. separator \<notin> set (trim l))
      \<longrightarrow> tableRows P headers separator dd dataLines = Inr [])
   \<and> (\<not> isHeaderLine (toLowerCase token) \<and> detectSeparator (toLowerCase token) \<notin> set (trim token)
      \<longrightarrow> tablePath P [token] dd = Inr [])
   \<and> tablePath P (nonBlankLines (trim (str ''600519''))) dd = Inr []
   \<and> parseSignalText P (str ''600519'') dd = Inr []"
proof -
  have row: "length (split_at (\<lambda>c. c = sep) (trim x)) < 2
      \<Longrightarrow> tableRow P hs sep dd x = Inr None" for sep x hs
    by (simp add: tableRow_def Let_def)
  have one: "sep \<notin> set (trim x) \<Longrightarrow> tableRow P hs sep dd x = Inr None" for sep x hs
    by (rule row) (simp add: split_at_absent list_ex_iff)
  have rows: "(\<forall>l \<in> set ls. sep \<notin> set (trim l)) \<Longrightarrow> tableRows P hs sep dd ls = Inr []"
    for sep ls hs
    by (induction ls) (simp_all add: one andThen_def)
  have tok: "\<not> isHeaderLine (toLowerCase token)
      \<and> detectSeparator (toLowerCase token) \<notin> set (trim token)
      \<longrightarrow> tablePath P [token] dd = Inr []"
    by (simp add: tablePath_def Let_def one andThen_def)
  have ex1: "tablePath P (nonBlankLines (trim (str ''600519''))) dd = Inr []"
    by (simp add: text_ops number_ops scoring_ops record_ops parser_ops Let_def)
  have ex2: "parseSignalText P (str ''600519'') dd = Inr []"
    by (simp add: text_ops number_ops scoring_ops record_ops parser_ops Let_def)
  show ?thesis
    using row rows tok ex1 ex2 by blast
qed

theorem C10_single_cell_line_skipped_witness:
  "tableRow sample_host [] 0x2C None (str ''600519'') = Inr None
   \<and> tableRows sample_host [] 0x2C None [str ''600519''] = Inr []
   \<and> tablePath sample_host [str ''600519''] None = Inr []"
  using C10_single_cell_line_skipped
    [of "0x2C" "str ''600519''" sample_host "[]" None "[str ''600519'']" "str ''600519''"]
  by (simp add: text_ops isHeaderLine_def detectSeparator_def andThen_def)

end
